theory Spec2Isabelle
  imports Main "HOL-Library.Char_ord" "HOL-Library.Word" "HOL-Library.Signed_Division"
    "HOL-Library.Sublist"
begin

section \<open>Entity models (internal/models/user.go)\<close>

text \<open>
  Go strings are byte sequences, modelled as \<^typ>\<open>string\<close>. \<open>uint\<close> is taken at 64 bits.
  \<open>time.Time\<close> is read as the number of nanoseconds since January 1, year 1, 00:00 UTC,
  the instant that Go's zero value of the type denotes, so the zero value is \<open>0\<close>.
\<close>

type_synonym Time = int

record User =
  ID :: string
  FirstName :: string
  LastName :: string
  Age :: "64 word"
  Email :: string
  Created :: Time

text \<open>The zero value that \<open>var user models.User\<close> declares.\<close>

definition zero_User :: User where
  "zero_User = \<lparr>ID = [], FirstName = [], LastName = [], Age = 0, Email = [], Created = 0\<rparr>"

text \<open>
  \<open>UserUpdate\<close> has pointer fields: \<open>nil\<close> is \<open>None\<close>, a pointer to a value \<open>v\<close> is
  \<open>Some v\<close>. The field names carry a prefix because a record cannot reuse the field
  names of \<open>User\<close>.
\<close>

record UserUpdate =
  upd_FirstName :: "string option"
  upd_LastName :: "string option"
  upd_Age :: "64 word option"
  upd_Email :: "string option"

section \<open>Regular expressions (the part of \<open>regexp\<close> that the validator uses)\<close>

text \<open>
  A character class is a list of inclusive ranges; a single character \<open>c\<close> of a class is
  the range \<open>(c, c)\<close>. \<open>Alt\<close>, \<open>Zero\<close> and \<open>One\<close> do not occur in the validator's pattern;
  the matcher needs them for its intermediate expressions.
\<close>

datatype rexp =
    Zero
  | One
  | Class "(char \<times> char) list"
  | Seq rexp rexp
  | Alt rexp rexp
  | Star rexp

definition in_class :: "(char \<times> char) list \<Rightarrow> char \<Rightarrow> bool" where
  "in_class rs c = list_ex (\<lambda>(lo, hi). lo \<le> c \<and> c \<le> hi) rs"

text \<open>\<open>x+\<close> is \<open>xx*\<close>, and \<open>x{n,}\<close> is \<open>n\<close> copies of \<open>x\<close> followed by \<open>x*\<close>.\<close>

definition Plus :: "rexp \<Rightarrow> rexp" where
  "Plus r = Seq r (Star r)"

fun AtLeast :: "nat \<Rightarrow> rexp \<Rightarrow> rexp" where
  "AtLeast 0 r = Star r"
| "AtLeast (Suc n) r = Seq r (AtLeast n r)"

definition Lit :: "char \<Rightarrow> rexp" where
  "Lit c = Class [(c, c)]"

fun nullable :: "rexp \<Rightarrow> bool" where
  "nullable Zero = False"
| "nullable One = True"
| "nullable (Class rs) = False"
| "nullable (Seq r s) = (nullable r \<and> nullable s)"
| "nullable (Alt r s) = (nullable r \<or> nullable s)"
| "nullable (Star r) = True"

fun deriv :: "char \<Rightarrow> rexp \<Rightarrow> rexp" where
  "deriv c Zero = Zero"
| "deriv c One = Zero"
| "deriv c (Class rs) = (if in_class rs c then One else Zero)"
| "deriv c (Seq r s) =
     (if nullable r then Alt (Seq (deriv c r) s) (deriv c s) else Seq (deriv c r) s)"
| "deriv c (Alt r s) = Alt (deriv c r) (deriv c s)"
| "deriv c (Star r) = Seq (deriv c r) (Star r)"

text \<open>
  \<open>full_match r s\<close>: the whole of \<open>s\<close> matches \<open>r\<close>. For a pattern \<open>^r$\<close> without flags,
  \<open>MatchString\<close> looks for a match that starts at the beginning of the text and ends at its
  end, which is a match of the whole text against \<open>r\<close>.
\<close>

fun full_match :: "rexp \<Rightarrow> string \<Rightarrow> bool" where
  "full_match r [] = nullable r"
| "full_match r (c # cs) = full_match (deriv c r) cs"

section \<open>Validator\<close>

text \<open>
  The pattern of \<open>isValidEmail\<close>:
  \<^verbatim>\<open>^[a-zA-Z0-9._%+-]+@[a-zA-Z0-9.-]+\.[a-zA-Z]{2,}$\<close>
\<close>

definition local_class :: "(char \<times> char) list" where
  "local_class = [(CHR ''a'', CHR ''z''), (CHR ''A'', CHR ''Z''), (CHR ''0'', CHR ''9''),
     (CHR ''.'', CHR ''.''), (CHR ''_'', CHR ''_''), (CHR ''%'', CHR ''%''),
     (CHR ''+'', CHR ''+''), (CHR ''-'', CHR ''-'')]"

definition domain_class :: "(char \<times> char) list" where
  "domain_class = [(CHR ''a'', CHR ''z''), (CHR ''A'', CHR ''Z''), (CHR ''0'', CHR ''9''),
     (CHR ''.'', CHR ''.''), (CHR ''-'', CHR ''-'')]"

definition alpha_class :: "(char \<times> char) list" where
  "alpha_class = [(CHR ''a'', CHR ''z''), (CHR ''A'', CHR ''Z'')]"

definition email_re :: rexp where
  "email_re =
     Seq (Plus (Class local_class))
       (Seq (Lit CHR ''@'')
         (Seq (Plus (Class domain_class))
           (Seq (Lit CHR ''.'') (AtLeast 2 (Class alpha_class)))))"

definition isValidEmail :: "string \<Rightarrow> bool" where
  "isValidEmail email = full_match email_re email"

text \<open>A Go \<open>error\<close> made by \<open>fmt.Errorf\<close> is its message; \<open>nil\<close> is \<open>None\<close>.\<close>

type_synonym error = string

definition ValidateUser :: "User \<Rightarrow> error option" where
  "ValidateUser user =
     (if FirstName user = [] then Some ''first name is required''
      else if LastName user = [] then Some ''last name is required''
      else if \<not> isValidEmail (Email user) then Some ''invalid email address''
      else None)"

definition ValidateUserUpdate :: "UserUpdate \<Rightarrow> error option" where
  "ValidateUserUpdate updates =
     (if (case upd_FirstName updates of None \<Rightarrow> False | Some v \<Rightarrow> v = [])
        then Some ''first name is required''
      else if (case upd_LastName updates of None \<Rightarrow> False | Some v \<Rightarrow> v = [])
        then Some ''last name is required''
      else if (case upd_Email updates of None \<Rightarrow> False | Some v \<Rightarrow> \<not> isValidEmail v)
        then Some ''invalid email address''
      else None)"

section \<open>Data access service\<close>

subsection \<open>Decimal formatting (\<open>strconv.Itoa\<close>, \<open>strconv.FormatInt(_, 10)\<close>, \<open>%d\<close>)\<close>

fun digits :: "nat \<Rightarrow> string" where
  "digits n =
     (if n < 10 then [''0123456789'' ! n]
      else digits (n div 10) @ [''0123456789'' ! (n mod 10)])"

definition Itoa :: "int \<Rightarrow> string" where
  "Itoa i = (if i < 0 then CHR ''-'' # digits (nat (- i)) else digits (nat i))"

subsection \<open>The store\<close>

text \<open>
  The arguments of a statement are \<open>[]interface{}\<close>: this service passes strings, \<open>uint\<close>s
  and a \<open>uuid.UUID\<close> (16 bytes).
\<close>

datatype param = PString string | PUint "64 word" | PUUID "128 word"

text \<open>
  The database is outside the repository, so its answers are parameters of the operations.
  \<open>exec query args\<close> is the error of \<open>db.Exec(query, args...)\<close>. \<open>queryRow query args\<close> is
  the outcome of \<open>db.QueryRow(query, args...).Scan(d1, d2, d3, d4, d5)\<close> with five
  destinations of the types string, string, string, string, uint: an error, or the five
  values that \<open>Scan\<close> stores through the five pointers.
\<close>

type_synonym exec_fn = "string \<Rightarrow> param list \<Rightarrow> error option"
type_synonym row5 = "string \<times> string \<times> string \<times> string \<times> 64 word"
type_synonym queryRow_fn = "string \<Rightarrow> param list \<Rightarrow> error + row5"

subsection \<open>Health\<close>

text \<open>
  The fields of \<open>sql.DBStats\<close> that \<open>Health\<close> reads. \<open>int\<close> and \<open>int64\<close> values are read as
  integers: \<open>Health\<close> compares them and halves one of them, which cannot overflow.
  \<open>WaitDuration\<close> is a \<open>time.Duration\<close>, a number of nanoseconds.
\<close>

record DBStats =
  OpenConnections :: int
  InUse :: int
  Idle :: int
  WaitCount :: int
  WaitDuration :: int
  MaxIdleClosed :: int
  MaxLifetimeClosed :: int

text \<open>
  \<open>Returned stats\<close>: \<open>Health\<close> returns the map \<open>stats\<close>. \<open>Fatal msg stats\<close>: \<open>Health\<close> reaches
  \<open>log.Fatalf(msg)\<close>, which writes the log entry and ends the process with \<open>os.Exit(1)\<close>;
  \<open>stats\<close> is the map as built at that point, which no caller receives.
\<close>

datatype health_result =
    Returned "string \<rightharpoonup> string"
  | Fatal string "string \<rightharpoonup> string"

text \<open>
  \<open>ping\<close> is the result of \<open>s.db.PingContext(ctx)\<close> under the one-second deadline (an
  exceeded deadline is one of its errors), \<open>dbStats\<close> the result of \<open>s.db.Stats()\<close>, and
  \<open>durationString\<close> stands for \<open>time.Duration.String\<close>. The description of the error is
  \<open>fmt.Sprintf("db down: %v", err)\<close>.
\<close>

definition Health :: "(int \<Rightarrow> string) \<Rightarrow> error option \<Rightarrow> DBStats \<Rightarrow> health_result" where
  "Health durationString ping dbStats =
     (let stats = Map.empty in
      case ping of
        Some err \<Rightarrow>
          (let stats = stats(''status'' \<mapsto> ''down'');
               stats = stats(''error'' \<mapsto> ''db down: '' @ err)
           in Fatal (''db down: '' @ err) stats)
      | None \<Rightarrow>
          (let stats = stats(''status'' \<mapsto> ''up'');
               stats = stats(''message'' \<mapsto> ''It's healthy'');
               stats = stats(''open_connections'' \<mapsto> Itoa (OpenConnections dbStats));
               stats = stats(''in_use'' \<mapsto> Itoa (InUse dbStats));
               stats = stats(''idle'' \<mapsto> Itoa (Idle dbStats));
               stats = stats(''wait_count'' \<mapsto> Itoa (WaitCount dbStats));
               stats = stats(''wait_duration'' \<mapsto> durationString (WaitDuration dbStats));
               stats = stats(''max_idle_closed'' \<mapsto> Itoa (MaxIdleClosed dbStats));
               stats = stats(''max_lifetime_closed'' \<mapsto> Itoa (MaxLifetimeClosed dbStats));
               stats = (if OpenConnections dbStats > 40
                  then stats(''message'' \<mapsto> ''The database is experiencing heavy load.'')
                  else stats);
               stats = (if WaitCount dbStats > 1000
                  then stats(''message'' \<mapsto>
                    ''The database has a high number of wait events, indicating potential bottlenecks.'')
                  else stats);
               stats = (if MaxIdleClosed dbStats > OpenConnections dbStats sdiv 2
                  then stats(''message'' \<mapsto>
                    ''Many idle connections are being closed, consider revising the connection pool settings.'')
                  else stats);
               stats = (if MaxLifetimeClosed dbStats > OpenConnections dbStats sdiv 2
                  then stats(''message'' \<mapsto>
                    ''Many connections are being closed due to max lifetime, consider increasing max lifetime or revising the connection usage pattern.'')
                  else stats)
           in Returned stats))"

subsection \<open>CreateUser\<close>

definition CreateUser_query :: string where
  "CreateUser_query =
     [CHR 0x0A] @ ''        INSERT INTO users (id, first_name, last_name, email, age)'' @
     [CHR 0x0A] @ ''        VALUES ($1, $2, $3, $4, $5)'' @
     [CHR 0x0A] @ ''    ''"

definition CreateUser_args :: "128 word \<Rightarrow> User \<Rightarrow> param list" where
  "CreateUser_args newid user =
     [PUUID newid, PString (FirstName user), PString (LastName user),
      PString (Email user), PUint (Age user)]"

text \<open>
  \<open>newid\<close> is the value of \<open>uuid.New()\<close>. \<open>CreateUser\<close> receives a pointer to the caller's
  entity, so the model returns, next to the error, the entity as the call leaves it. The
  two \<open>log.Printf\<close> calls are not modelled, nor is the panic of \<open>uuid.New\<close> when the
  system's random source fails.
\<close>

definition CreateUser :: "exec_fn \<Rightarrow> 128 word \<Rightarrow> User \<Rightarrow> error option \<times> User" where
  "CreateUser exec newid user =
     (case exec CreateUser_query (CreateUser_args newid user) of
        Some err \<Rightarrow> (Some err, user)
      | None \<Rightarrow> (None, user))"

subsection \<open>GetUserByID\<close>

text \<open>\<open>Scan(&user.ID, &user.FirstName, &user.LastName, &user.Email, &user.Age)\<close> on a fresh \<open>user\<close>.\<close>

definition scan_User :: "row5 \<Rightarrow> User" where
  "scan_User r =
     (case r of (a, b, c, d, e) \<Rightarrow>
        zero_User\<lparr>ID := a, FirstName := b, LastName := c, Email := d, Age := e\<rparr>)"

definition GetUserByID_query :: string where
  "GetUserByID_query = ''SELECT id, first_name, last_name, email, age FROM users WHERE id = $1''"

definition GetUserByID :: "queryRow_fn \<Rightarrow> string \<Rightarrow> error + User" where
  "GetUserByID queryRow uid =
     (case queryRow GetUserByID_query [PString uid] of
        Inl err \<Rightarrow> Inl err
      | Inr r \<Rightarrow> Inr (scan_User r))"

subsection \<open>UpdateUserByID\<close>

text \<open>
  The statement and its arguments, as the function assembles them before it calls the
  store. \<open>query[:len(query)-2]\<close> cannot be out of range: \<open>query\<close> has at least the 17 bytes
  of its initial value.
\<close>

definition UpdateUserByID_stmt :: "string \<Rightarrow> UserUpdate \<Rightarrow> string \<times> param list" where
  "UpdateUserByID_stmt uid updates =
     (let query = ''UPDATE users SET '';
          params = [];
          paramId = (1::int);
          (query, params, paramId) =
            (case upd_FirstName updates of
               None \<Rightarrow> (query, params, paramId)
             | Some v \<Rightarrow> (query @ ''first_name = $'' @ Itoa paramId @ '', '',
                          params @ [PString v], paramId + 1));
          (query, params, paramId) =
            (case upd_LastName updates of
               None \<Rightarrow> (query, params, paramId)
             | Some v \<Rightarrow> (query @ ''last_name = $'' @ Itoa paramId @ '', '',
                          params @ [PString v], paramId + 1));
          (query, params, paramId) =
            (case upd_Age updates of
               None \<Rightarrow> (query, params, paramId)
             | Some v \<Rightarrow> (query @ ''age = $'' @ Itoa paramId @ '', '',
                          params @ [PUint v], paramId + 1));
          (query, params, paramId) =
            (case upd_Email updates of
               None \<Rightarrow> (query, params, paramId)
             | Some v \<Rightarrow> (query @ ''email = $'' @ Itoa paramId @ '', '',
                          params @ [PString v], paramId + 1));
          query = take (length query - 2) query @ '' WHERE id = $'' @ Itoa paramId @
                    '' RETURNING id, first_name, last_name, email, age'';
          params = params @ [PString uid]
      in (query, params))"

definition UpdateUserByID :: "queryRow_fn \<Rightarrow> string \<Rightarrow> UserUpdate \<Rightarrow> error + User" where
  "UpdateUserByID queryRow uid updates =
     (case UpdateUserByID_stmt uid updates of (query, params) \<Rightarrow>
        (case queryRow query params of
           Inl err \<Rightarrow> Inl err
         | Inr r \<Rightarrow> Inr (scan_User r)))"

section \<open>Notions of the specification\<close>

subsection \<open>The language of a regular expression\<close>

definition conc :: "string set \<Rightarrow> string set \<Rightarrow> string set" where
  "conc A B = {u @ v | u v. u \<in> A \<and> v \<in> B}"

inductive_set star :: "string set \<Rightarrow> string set" for A :: "string set" where
  star_empty: "[] \<in> star A"
| star_more: "u \<in> A \<Longrightarrow> v \<in> star A \<Longrightarrow> u @ v \<in> star A"

fun lang :: "rexp \<Rightarrow> string set" where
  "lang Zero = {}"
| "lang One = {[]}"
| "lang (Class rs) = {[c] | c. in_class rs c}"
| "lang (Seq r s) = conc (lang r) (lang s)"
| "lang (Alt r s) = lang r \<union> lang s"
| "lang (Star r) = star (lang r)"

subsection \<open>The shape of an email address\<close>

text \<open>
  The shape as the specification words it: one or more characters from \<open>[A-Za-z0-9._%+-]\<close>,
  an \<open>@\<close>, one or more characters from \<open>[A-Za-z0-9.-]\<close>, a literal \<open>.\<close>, and a final label
  of at least two alphabetic characters, with nothing before or after.
\<close>

definition is_alpha :: "char \<Rightarrow> bool" where
  "is_alpha c = ((CHR ''A'' \<le> c \<and> c \<le> CHR ''Z'') \<or> (CHR ''a'' \<le> c \<and> c \<le> CHR ''z''))"

definition is_digit :: "char \<Rightarrow> bool" where
  "is_digit c = (CHR ''0'' \<le> c \<and> c \<le> CHR ''9'')"

definition local_char :: "char \<Rightarrow> bool" where
  "local_char c = (is_alpha c \<or> is_digit c \<or> c \<in> set ''._%+-'')"

definition domain_char :: "char \<Rightarrow> bool" where
  "domain_char c = (is_alpha c \<or> is_digit c \<or> c \<in> set ''.-'')"

definition email_shape :: "string \<Rightarrow> bool" where
  "email_shape s =
     (\<exists>l d t. s = l @ ''@'' @ d @ ''.'' @ t \<and>
        l \<noteq> [] \<and> list_all local_char l \<and>
        d \<noteq> [] \<and> list_all domain_char d \<and>
        2 \<le> length t \<and> list_all is_alpha t)"

subsection \<open>The assignment list of an update statement\<close>

text \<open>
  The present fields of an update in the fixed order first_name, last_name, age, email,
  each with the value it carries; the assignment \<open>col = $i\<close> of a column; and the
  assignments of a list of columns, numbered from 1 and separated by \<open>", "\<close>.
\<close>

definition present_fields :: "UserUpdate \<Rightarrow> (string \<times> param) list" where
  "present_fields updates =
     (case upd_FirstName updates of None \<Rightarrow> [] | Some v \<Rightarrow> [(''first_name'', PString v)]) @
     (case upd_LastName updates of None \<Rightarrow> [] | Some v \<Rightarrow> [(''last_name'', PString v)]) @
     (case upd_Age updates of None \<Rightarrow> [] | Some v \<Rightarrow> [(''age'', PUint v)]) @
     (case upd_Email updates of None \<Rightarrow> [] | Some v \<Rightarrow> [(''email'', PString v)])"

fun number_from :: "int \<Rightarrow> 'a list \<Rightarrow> ('a \<times> int) list" where
  "number_from i [] = []"
| "number_from i (x # xs) = (x, i) # number_from (i + 1) xs"

definition assignment :: "string \<times> int \<Rightarrow> string" where
  "assignment a = fst a @ '' = $'' @ Itoa (snd a)"

fun join :: "string \<Rightarrow> string list \<Rightarrow> string" where
  "join sep [] = []"
| "join sep [x] = x"
| "join sep (x # y # ys) = x @ sep @ join sep (y # ys)"

definition assignment_list :: "string list \<Rightarrow> string" where
  "assignment_list cols = join '', '' (map assignment (number_from 1 cols))"

subsection \<open>Health reports\<close>

text \<open>
  \<open>reports_down r\<close>: the caller receives a snapshot whose status is \<open>down\<close> and whose error
  description is not empty.
\<close>

definition reports_down :: "health_result \<Rightarrow> bool" where
  "reports_down r =
     (case r of
        Returned stats \<Rightarrow>
          stats ''status'' = Some ''down'' \<and>
          (case stats ''error'' of None \<Rightarrow> False | Some d \<Rightarrow> d \<noteq> [])
      | Fatal msg stats \<Rightarrow> False)"

text \<open>
  The four threshold conditions in the order in which \<open>Health\<close> tests them, each with its
  message. Half of the open connections is Go's integer half. \<open>last_holding\<close> picks the
  message of the last condition that holds, and the default when none holds.
\<close>

definition advisories :: "DBStats \<Rightarrow> (bool \<times> string) list" where
  "advisories dbStats =
     [(OpenConnections dbStats > 40, ''The database is experiencing heavy load.''),
      (WaitCount dbStats > 1000,
        ''The database has a high number of wait events, indicating potential bottlenecks.''),
      (MaxIdleClosed dbStats > OpenConnections dbStats sdiv 2,
        ''Many idle connections are being closed, consider revising the connection pool settings.''),
      (MaxLifetimeClosed dbStats > OpenConnections dbStats sdiv 2,
        ''Many connections are being closed due to max lifetime, consider increasing max lifetime or revising the connection usage pattern.'')]"

definition last_holding :: "(bool \<times> string) list \<Rightarrow> string \<Rightarrow> string" where
  "last_holding cs dflt =
     (case filter fst cs of [] \<Rightarrow> dflt | c # cs' \<Rightarrow> snd (last (c # cs')))"

section \<open>Concrete inputs\<close>

text \<open>The update \<open>models.UserUpdate{}\<close>, with all four pointers \<open>nil\<close>.\<close>

definition no_update :: UserUpdate where
  "no_update = \<lparr>upd_FirstName = None, upd_LastName = None, upd_Age = None, upd_Email = None\<rparr>"

definition example_update :: UserUpdate where
  "example_update =
     \<lparr>upd_FirstName = Some ''Ann'', upd_LastName = None, upd_Age = Some 30, upd_Email = None\<rparr>"

definition example_user :: User where
  "example_user =
     \<lparr>ID = ''client-id'', FirstName = ''Ann'', LastName = ''Lee'', Age = 30,
      Email = ''ann@example.com'', Created = 0\<rparr>"

definition example_row :: row5 where
  "example_row = (''u1'', ''Ann'', ''Lee'', ''ann@example.com'', 30)"

text \<open>A store that answers every statement with the same row.\<close>

definition example_queryRow :: queryRow_fn where
  "example_queryRow query args = Inr example_row"

definition example_stats :: DBStats where
  "example_stats =
     \<lparr>OpenConnections = 50, InUse = 45, Idle = 5, WaitCount = 2000, WaitDuration = 0,
      MaxIdleClosed = 30, MaxLifetimeClosed = 10\<rparr>"

text \<open>A stand-in for \<open>time.Duration.String\<close> in concrete evaluations.\<close>

definition example_durationString :: "int \<Rightarrow> string" where
  "example_durationString d = Itoa d @ ''ns''"

section \<open>The matcher decides the language\<close>

lemma conc_nil: "[] \<in> conc A B \<longleftrightarrow> [] \<in> A \<and> [] \<in> B"
  by (auto simp: conc_def)

lemma nullable_lang: "nullable r \<longleftrightarrow> [] \<in> lang r"
  by (induction r) (auto simp: conc_nil intro: star.star_empty)

lemma cons_conc:
  "c # w \<in> conc A B \<longleftrightarrow>
     ([] \<in> A \<and> c # w \<in> B) \<or> (\<exists>u v. w = u @ v \<and> c # u \<in> A \<and> v \<in> B)"
  unfolding conc_def by (auto simp: Cons_eq_append_conv)

lemma cons_star_D:
  "x \<in> star A \<Longrightarrow> x = c # w \<Longrightarrow> \<exists>u v. w = u @ v \<and> c # u \<in> A \<and> v \<in> star A"
proof (induction arbitrary: w rule: star.induct)
  case star_empty
  then show ?case by simp
next
  case (star_more u v)
  show ?case
  proof (cases u)
    case Nil
    with star_more show ?thesis by simp
  next
    case (Cons a u')
    with star_more.prems have "a = c" "w = u' @ v" by simp_all
    with Cons star_more.hyps show ?thesis by blast
  qed
qed

lemma cons_star:
  "c # w \<in> star A \<longleftrightarrow> (\<exists>u v. w = u @ v \<and> c # u \<in> A \<and> v \<in> star A)"
proof
  assume "c # w \<in> star A"
  then show "\<exists>u v. w = u @ v \<and> c # u \<in> A \<and> v \<in> star A"
    using cons_star_D by blast
next
  assume "\<exists>u v. w = u @ v \<and> c # u \<in> A \<and> v \<in> star A"
  then obtain u v where "w = u @ v" "c # u \<in> A" "v \<in> star A" by blast
  then show "c # w \<in> star A"
    using star.star_more [of "c # u" A v] by simp
qed

lemma lang_deriv: "w \<in> lang (deriv c r) \<longleftrightarrow> c # w \<in> lang r"
proof (induction r arbitrary: w)
  case (Seq r1 r2)
  then show ?case
    by (auto simp: cons_conc nullable_lang) (auto simp: conc_def)
next
  case (Star r)
  then show ?case
    by (auto simp: cons_star conc_def)
qed auto

lemma full_match_lang: "full_match r s \<longleftrightarrow> s \<in> lang r"
  by (induction s arbitrary: r) (simp_all add: nullable_lang lang_deriv)

lemma star_class: "star {[c] | c. P c} = {w. list_all P w}"
proof (intro set_eqI iffI)
  fix w assume "w \<in> star {[c] | c. P c}"
  then show "w \<in> {w. list_all P w}"
    by (induction rule: star.induct) auto
next
  fix w assume "w \<in> {w. list_all P w}"
  then have "list_all P w" by simp
  then show "w \<in> star {[c] | c. P c}"
  proof (induction w)
    case Nil
    show ?case by (rule star.star_empty)
  next
    case (Cons a w)
    then have "[a] \<in> {[c] | c. P c}" "w \<in> star {[c] | c. P c}" by auto
    then have "[a] @ w \<in> star {[c] | c. P c}" by (rule star.star_more)
    then show ?case by simp
  qed
qed

lemma in_local_class: "in_class local_class c = local_char c"
  by (auto simp: in_class_def local_class_def local_char_def is_alpha_def is_digit_def)

lemma in_domain_class: "in_class domain_class c = domain_char c"
  by (auto simp: in_class_def domain_class_def domain_char_def is_alpha_def is_digit_def)

lemma in_alpha_class: "in_class alpha_class c = is_alpha c"
  by (auto simp: in_class_def alpha_class_def is_alpha_def)

lemma conc_chars: "w \<in> conc {[c] | c. P c} B \<longleftrightarrow> (\<exists>c v. w = c # v \<and> P c \<and> v \<in> B)"
proof
  assume "w \<in> conc {[c] | c. P c} B"
  then show "\<exists>c v. w = c # v \<and> P c \<and> v \<in> B"
    by (auto simp: conc_def)
next
  assume "\<exists>c v. w = c # v \<and> P c \<and> v \<in> B"
  then obtain c v where "w = [c] @ v" "P c" "v \<in> B" by auto
  then show "w \<in> conc {[c] | c. P c} B"
    unfolding conc_def by blast
qed

lemma lang_Plus_Class:
  "w \<in> lang (Plus (Class rs)) \<longleftrightarrow> w \<noteq> [] \<and> list_all (in_class rs) w"
  by (cases w) (auto simp: Plus_def conc_chars star_class)

lemma lang_AtLeast_Class:
  "w \<in> lang (AtLeast n (Class rs)) \<longleftrightarrow> n \<le> length w \<and> list_all (in_class rs) w"
proof (induction n arbitrary: w)
  case 0
  show ?case by (simp add: star_class)
next
  case (Suc n)
  show ?case by (cases w) (auto simp: conc_chars Suc)
qed

lemma lang_Lit: "lang (Lit c) = {[c]}"
  by (auto simp: Lit_def in_class_def)

lemma mem_conc: "w \<in> conc A B \<longleftrightarrow> (\<exists>u v. w = u @ v \<and> u \<in> A \<and> v \<in> B)"
  by (auto simp: conc_def)

lemma conc_char: "w \<in> conc {[c]} B \<longleftrightarrow> (\<exists>v. w = c # v \<and> v \<in> B)"
  by (auto simp: conc_def)

lemma lang_email_re:
  "s \<in> lang email_re \<longleftrightarrow>
     (\<exists>l d t. s = l @ ''@'' @ d @ ''.'' @ t \<and>
        l \<noteq> [] \<and> list_all (in_class local_class) l \<and>
        d \<noteq> [] \<and> list_all (in_class domain_class) d \<and>
        2 \<le> length t \<and> list_all (in_class alpha_class) t)"
proof -
  let ?T = "lang (AtLeast 2 (Class alpha_class))"
  let ?D = "lang (Plus (Class domain_class))"
  let ?L = "lang (Plus (Class local_class))"
  have "s \<in> lang email_re \<longleftrightarrow>
      (\<exists>l r. s = l @ r \<and> l \<in> ?L \<and> r \<in> conc {''@''} (conc ?D (conc {''.''} ?T)))"
    by (simp add: email_re_def mem_conc [of s] lang_Lit)
  also have "\<dots> \<longleftrightarrow> (\<exists>l r. s = l @ ''@'' @ r \<and> l \<in> ?L \<and> r \<in> conc ?D (conc {''.''} ?T))"
    by (auto simp: conc_char)
  also have "\<dots> \<longleftrightarrow> (\<exists>l d r. s = l @ ''@'' @ d @ r \<and> l \<in> ?L \<and> d \<in> ?D \<and> r \<in> conc {''.''} ?T)"
    by (auto simp: mem_conc [of _ ?D])
  also have "\<dots> \<longleftrightarrow> (\<exists>l d t. s = l @ ''@'' @ d @ ''.'' @ t \<and> l \<in> ?L \<and> d \<in> ?D \<and> t \<in> ?T)"
    by (auto simp: conc_char)
  finally show ?thesis
    by (simp only: lang_Plus_Class lang_AtLeast_Class) blast
qed

section \<open>Validator: properties\<close>

text \<open>
  C7. For every string, the email-syntax check accepts it if and only if it has the shape
  \<open>local@domain.tld\<close>: a non-empty local part over \<open>[A-Za-z0-9._%+-]\<close>, an \<open>@\<close>, a
  non-empty domain over \<open>[A-Za-z0-9.-]\<close>, a literal \<open>.\<close> and a final label of at least two
  letters, with nothing before or after.
\<close>

theorem isValidEmail_shape: "isValidEmail s \<longleftrightarrow> email_shape s"
  unfolding isValidEmail_def full_match_lang lang_email_re email_shape_def
    in_local_class [abs_def] in_domain_class [abs_def] in_alpha_class [abs_def]
  by (rule refl)

theorem isValidEmail_shape_witness:
  "isValidEmail ''ann@example.com'' \<and> email_shape ''ann@example.com''"
  using isValidEmail_shape [of "''ann@example.com''"]
  by (simp add: isValidEmail_def email_re_def Plus_def Lit_def in_class_def
    local_class_def domain_class_def alpha_class_def numeral_2_eq_2)



lemma isValidEmail_example: "isValidEmail ''ann@example.com''"
  by (simp add: isValidEmail_def email_re_def Plus_def Lit_def in_class_def
    local_class_def domain_class_def alpha_class_def numeral_2_eq_2)

text \<open>
  C3. For every \<open>User\<close>, \<open>ValidateUser\<close> returns an error if and only if \<open>first_name\<close> is
  empty, \<open>last_name\<close> is empty, or \<open>email\<close> fails the email-syntax check; for every user
  with non-empty \<open>first_name\<close>, non-empty \<open>last_name\<close> and a well-formed \<open>email\<close> it returns
  \<open>nil\<close>.
\<close>

theorem ValidateUser_iff:
  "(ValidateUser user \<noteq> None) =
     (FirstName user = [] \<or> LastName user = [] \<or> \<not> isValidEmail (Email user))
   \<and> (FirstName user \<noteq> [] \<and> LastName user \<noteq> [] \<and> isValidEmail (Email user)
        \<longrightarrow> ValidateUser user = None)"
  by (simp add: ValidateUser_def)

theorem ValidateUser_iff_witness:
  "FirstName example_user \<noteq> [] \<and> LastName example_user \<noteq> [] \<and>
   isValidEmail (Email example_user) \<and> ValidateUser example_user = None"
  using ValidateUser_iff [of example_user]
  by (simp add: example_user_def isValidEmail_example)

text \<open>
  C8. The result of \<open>ValidateUser\<close> never depends on \<open>age\<close>: for two users that differ only
  in \<open>age\<close> it returns the same result, the same error or \<open>nil\<close> for both.
\<close>

theorem ValidateUser_ignores_Age:
  "ID u = ID v \<Longrightarrow> FirstName u = FirstName v \<Longrightarrow> LastName u = LastName v \<Longrightarrow>
   Email u = Email v \<Longrightarrow> Created u = Created v \<Longrightarrow> ValidateUser u = ValidateUser v"
  by (simp add: ValidateUser_def)

theorem ValidateUser_ignores_Age_witness:
  "Age (example_user\<lparr>Age := 200\<rparr>) \<noteq> Age example_user \<and>
   ValidateUser (example_user\<lparr>Age := 200\<rparr>) = ValidateUser example_user"
  using ValidateUser_ignores_Age [of "example_user\<lparr>Age := 200\<rparr>" example_user]
  by (simp add: example_user_def)

section \<open>Data access service: properties\<close>

declare digits.simps [simp del]

lemma Itoa_small:
  "Itoa 1 = ''1''" "Itoa 2 = ''2''" "Itoa 3 = ''3''" "Itoa 4 = ''4''" "Itoa 5 = ''5''"
  by (simp_all add: Itoa_def digits.simps)

text \<open>
  C4. Fields of a \<open>UserUpdate\<close> that are absent (\<open>nil\<close>) are never validated:
  \<open>ValidateUserUpdate\<close> accepts exactly when every present \<open>first_name\<close> and \<open>last_name\<close> is
  non-empty and every present \<open>email\<close> passes the email-syntax check, so an absent field is
  always accepted. And an absent field never appears in the assignment list of the
  statement of \<open>UpdateUserByID\<close>: the statement has no assignment \<open>col = $\<close> for its column.
\<close>

theorem absent_fields_untouched:
  "(ValidateUserUpdate updates = None) =
     ((\<forall>v. upd_FirstName updates = Some v \<longrightarrow> v \<noteq> []) \<and>
      (\<forall>v. upd_LastName updates = Some v \<longrightarrow> v \<noteq> []) \<and>
      (\<forall>v. upd_Email updates = Some v \<longrightarrow> isValidEmail v))
   \<and> (upd_FirstName updates = None \<longrightarrow>
        \<not> sublist ''first_name = $'' (fst (UpdateUserByID_stmt uid updates)))
   \<and> (upd_LastName updates = None \<longrightarrow>
        \<not> sublist ''last_name = $'' (fst (UpdateUserByID_stmt uid updates)))
   \<and> (upd_Age updates = None \<longrightarrow>
        \<not> sublist ''age = $'' (fst (UpdateUserByID_stmt uid updates)))
   \<and> (upd_Email updates = None \<longrightarrow>
        \<not> sublist ''email = $'' (fst (UpdateUserByID_stmt uid updates)))"
proof -
  have validated: "(ValidateUserUpdate updates = None) =
     ((\<forall>v. upd_FirstName updates = Some v \<longrightarrow> v \<noteq> []) \<and>
      (\<forall>v. upd_LastName updates = Some v \<longrightarrow> v \<noteq> []) \<and>
      (\<forall>v. upd_Email updates = Some v \<longrightarrow> isValidEmail v))"
    by (auto simp: ValidateUserUpdate_def split: option.splits)
  have assigned:
    "(upd_FirstName updates = None \<longrightarrow>
        \<not> sublist ''first_name = $'' (fst (UpdateUserByID_stmt uid updates)))
     \<and> (upd_LastName updates = None \<longrightarrow>
        \<not> sublist ''last_name = $'' (fst (UpdateUserByID_stmt uid updates)))
     \<and> (upd_Age updates = None \<longrightarrow>
        \<not> sublist ''age = $'' (fst (UpdateUserByID_stmt uid updates)))
     \<and> (upd_Email updates = None \<longrightarrow>
        \<not> sublist ''email = $'' (fst (UpdateUserByID_stmt uid updates)))"
    by (cases "upd_FirstName updates"; cases "upd_LastName updates";
        cases "upd_Age updates"; cases "upd_Email updates")
      (simp_all add: UpdateUserByID_stmt_def Itoa_small sublist_code)
  from validated assigned show ?thesis by (rule conjI)
qed

theorem absent_fields_untouched_witness:
  "upd_LastName example_update = None \<and> upd_Email example_update = None \<and>
   ValidateUserUpdate example_update = None \<and>
   \<not> sublist ''last_name = $'' (fst (UpdateUserByID_stmt ''u1'' example_update)) \<and>
   \<not> sublist ''email = $'' (fst (UpdateUserByID_stmt ''u1'' example_update))"
  using absent_fields_untouched [of example_update "''u1''"]
  by (simp add: example_update_def)

text \<open>
  C5. For every update with at least one present field, \<open>UpdateUserByID\<close> builds a
  statement that sets exactly the present fields, in the fixed order first_name,
  last_name, age, email, with the positional parameters \<open>$1\<close>, \<open>$2\<close>, ... in that order; the
  filter on the identity follows, with the next parameter index, and the clause
  \<open>RETURNING id, first_name, last_name, email, age\<close>. The arguments are the values of the
  present fields in that order, then the identity. The statement goes to the store in one
  call, whose row is the result.
\<close>

theorem UpdateUserByID_statement:
  "upd_FirstName updates \<noteq> None \<or> upd_LastName updates \<noteq> None \<or>
   upd_Age updates \<noteq> None \<or> upd_Email updates \<noteq> None \<Longrightarrow>
   UpdateUserByID_stmt uid updates =
      (''UPDATE users SET '' @ assignment_list (map fst (present_fields updates)) @
         '' WHERE id = $'' @ Itoa (int (length (present_fields updates)) + 1) @
         '' RETURNING id, first_name, last_name, email, age'',
       map snd (present_fields updates) @ [PString uid])
   \<and> UpdateUserByID queryRow uid updates =
      (case queryRow (fst (UpdateUserByID_stmt uid updates))
              (snd (UpdateUserByID_stmt uid updates)) of
         Inl err \<Rightarrow> Inl err
       | Inr (a, b, c, d, e) \<Rightarrow>
           Inr \<lparr>ID = a, FirstName = b, LastName = c, Age = e, Email = d, Created = 0\<rparr>)"
proof -
  assume present: "upd_FirstName updates \<noteq> None \<or> upd_LastName updates \<noteq> None \<or>
    upd_Age updates \<noteq> None \<or> upd_Email updates \<noteq> None"
  have stmt: "UpdateUserByID_stmt uid updates =
      (''UPDATE users SET '' @ assignment_list (map fst (present_fields updates)) @
         '' WHERE id = $'' @ Itoa (int (length (present_fields updates)) + 1) @
         '' RETURNING id, first_name, last_name, email, age'',
       map snd (present_fields updates) @ [PString uid])"
    using present
    by (cases "upd_FirstName updates"; cases "upd_LastName updates";
        cases "upd_Age updates"; cases "upd_Email updates")
      (simp_all add: UpdateUserByID_stmt_def present_fields_def assignment_list_def
        assignment_def Itoa_small)
  have call: "UpdateUserByID queryRow uid updates =
      (case queryRow (fst (UpdateUserByID_stmt uid updates))
              (snd (UpdateUserByID_stmt uid updates)) of
         Inl err \<Rightarrow> Inl err
       | Inr (a, b, c, d, e) \<Rightarrow>
           Inr \<lparr>ID = a, FirstName = b, LastName = c, Age = e, Email = d, Created = 0\<rparr>)"
    by (simp add: UpdateUserByID_def scan_User_def zero_User_def
        split: prod.splits sum.splits)
  from stmt call show ?thesis by (rule conjI)
qed

theorem UpdateUserByID_statement_witness:
  "upd_FirstName example_update \<noteq> None \<and>
   UpdateUserByID_stmt ''u1'' example_update =
     (''UPDATE users SET first_name = $1, age = $2 WHERE id = $3 RETURNING id, first_name, last_name, email, age'',
      [PString ''Ann'', PUint 30, PString ''u1''])
   \<and> UpdateUserByID example_queryRow ''u1'' example_update =
       Inr \<lparr>ID = ''u1'', FirstName = ''Ann'', LastName = ''Lee'', Age = 30,
            Email = ''ann@example.com'', Created = 0\<rparr>"
  using UpdateUserByID_statement [of example_update "''u1''" example_queryRow]
  by (simp add: example_update_def example_queryRow_def example_row_def present_fields_def
      assignment_list_def assignment_def Itoa_small)

text \<open>
  C1. For the update with no present field, \<open>UpdateUserByID\<close> should not produce a \<open>SET\<close>
  clause with nothing to set. It does: cutting the last two bytes, meant to remove the
  trailing \<open>", "\<close>, removes \<open>"T "\<close> from the initial text, and the statement
  \<open>UPDATE users SE WHERE id = $1 RETURNING ...\<close> goes to the store. The validator accepts
  that update, too.
\<close>

theorem UpdateUserByID_no_fields:
  "UpdateUserByID_stmt uid no_update =
     (''UPDATE users SE WHERE id = $1 RETURNING id, first_name, last_name, email, age'',
      [PString uid])
   \<and> UpdateUserByID queryRow uid no_update =
      (case queryRow
          ''UPDATE users SE WHERE id = $1 RETURNING id, first_name, last_name, email, age''
          [PString uid] of
         Inl err \<Rightarrow> Inl err
       | Inr r \<Rightarrow> Inr (scan_User r))
   \<and> ValidateUserUpdate no_update = None"
  by (simp add: UpdateUserByID_def UpdateUserByID_stmt_def ValidateUserUpdate_def
      no_update_def Itoa_small)

text \<open>
  C6. \<open>CreateUser\<close> inserts the identity that the service mints, whatever \<open>ID\<close> the caller's
  entity carries: the arguments of the insert are the minted identity and the entity's
  first name, last name, email and age. It returns an error or \<open>nil\<close> and nothing else, and
  it leaves the caller's entity as it was.
\<close>

theorem CreateUser_frame:
  "CreateUser exec newid user =
     (exec CreateUser_query
        [PUUID newid, PString (FirstName user), PString (LastName user),
         PString (Email user), PUint (Age user)],
      user)
   \<and> CreateUser_args newid (user\<lparr>ID := x\<rparr>) = CreateUser_args newid user
   \<and> fst (CreateUser exec newid (user\<lparr>ID := x\<rparr>)) = fst (CreateUser exec newid user)
   \<and> snd (CreateUser exec newid user) = user"
  by (simp add: CreateUser_def CreateUser_args_def split: option.splits)

text \<open>
  C9. The \<open>User\<close> that a successful \<open>GetUserByID\<close> or \<open>UpdateUserByID\<close> returns has the zero
  value as its \<open>Created\<close> timestamp: neither statement names the column \<open>created\<close>, and
  neither operation stores into the field.
\<close>

theorem Created_never_populated:
  "(GetUserByID queryRow uid = Inr user \<longrightarrow> Created user = 0) \<and>
   (UpdateUserByID queryRow uid updates = Inr user \<longrightarrow> Created user = 0) \<and>
   \<not> sublist ''created'' GetUserByID_query \<and>
   \<not> sublist ''created'' (fst (UpdateUserByID_stmt uid updates))"
proof -
  have fields: "(GetUserByID queryRow uid = Inr user \<longrightarrow> Created user = 0) \<and>
      (UpdateUserByID queryRow uid updates = Inr user \<longrightarrow> Created user = 0)"
    by (auto simp: GetUserByID_def UpdateUserByID_def scan_User_def zero_User_def
        split: sum.splits prod.splits)
  have get: "\<not> sublist ''created'' GetUserByID_query"
    by (simp add: GetUserByID_query_def sublist_code)
  have upd: "\<not> sublist ''created'' (fst (UpdateUserByID_stmt uid updates))"
    by (cases "upd_FirstName updates"; cases "upd_LastName updates";
        cases "upd_Age updates"; cases "upd_Email updates")
      (simp_all add: UpdateUserByID_stmt_def Itoa_small sublist_code)
  from fields get upd show ?thesis by simp
qed

theorem Created_never_populated_witness:
  "GetUserByID example_queryRow ''u1'' = Inr (scan_User example_row) \<and>
   UpdateUserByID example_queryRow ''u1'' example_update = Inr (scan_User example_row) \<and>
   Created (scan_User example_row) = 0"
  using Created_never_populated
    [of example_queryRow "''u1''" "scan_User example_row" example_update]
  by (simp add: GetUserByID_def UpdateUserByID_def example_queryRow_def split: prod.splits)

text \<open>
  C2, as the specification states it: when the ping fails, \<open>Health\<close> returns a snapshot with
  the status \<open>down\<close> and a non-empty error description. It does not return at a failed ping.
\<close>

theorem Health_ping_failure_counterexample:
  "\<not> reports_down (Health example_durationString (Some ''connection refused'') example_stats)"
  by (simp add: Health_def reports_down_def)

text \<open>
  C2, amended. Whenever the ping fails or runs into its deadline, \<open>Health\<close> records the
  status \<open>down\<close> and the non-empty description \<open>db down: \<close> followed by the error in its
  snapshot, and then ends the process through \<open>log.Fatalf\<close> with that description: no
  snapshot reaches the caller.
\<close>

theorem Health_ping_failure_fatal:
  "Health durationString (Some err) dbStats =
     Fatal (''db down: '' @ err) [''status'' \<mapsto> ''down'', ''error'' \<mapsto> ''db down: '' @ err]
   \<and> ''db down: '' @ err \<noteq> []
   \<and> \<not> reports_down (Health durationString (Some err) dbStats)"
  by (simp add: Health_def reports_down_def)

text \<open>
  C10. When the ping succeeds, \<open>Health\<close> returns a snapshot with the status \<open>up\<close> and one
  message. Each threshold test that holds overwrites the message, so the message is that
  of the last condition that holds in the order open connections above 40, wait count
  above 1000, idle closures above half of the open connections, lifetime closures above
  half of the open connections, and \<open>It's healthy\<close> when none holds.
\<close>

theorem Health_message:
  "\<exists>stats. Health durationString None dbStats = Returned stats \<and>
     stats ''status'' = Some ''up'' \<and>
     stats ''message'' = Some (last_holding (advisories dbStats) ''It's healthy'')"
  by (simp add: Health_def Let_def advisories_def last_holding_def)

theorem Health_message_witness:
  "\<exists>stats. Health example_durationString None example_stats = Returned stats \<and>
     stats ''message'' = Some
       ''Many idle connections are being closed, consider revising the connection pool settings.''"
  using Health_message [of example_durationString example_stats]
  by (auto simp add: advisories_def last_holding_def example_stats_def signed_divide_int_def)

text \<open>For a count of open connections, Go's integer half and the exact half agree here.\<close>

lemma half_of_count: "0 \<le> n \<Longrightarrow> (x > n sdiv 2) = (2 * x > (n::int))"
  by (simp add: signed_divide_int_def sgn_if) linarith


end
